theory Spec2Isabelle
  imports Complex_Main "HOL-Library.Word" "HOL-Library.Sublist"
begin

unbundle bit_operations_syntax

section \<open>ADS1115 driver (ADS1115.py): constants\<close>

text \<open>
  The module-level configuration constants, lines 6 to 21. Python integers are unbounded,
  so they are modelled as \<open>int\<close>; \<open>|\<close>, \<open>&\<close>, \<open><<\<close> and \<open>>>\<close> are \<open>OR\<close>, \<open>AND\<close>,
  \<open>push_bit\<close> and \<open>drop_bit\<close>.
\<close>

definition ADS1115_CONFIG_OS_SINGLE :: int where "ADS1115_CONFIG_OS_SINGLE = 0x8000"
definition ADS1115_CONFIG_MUX_SINGLE_0 :: int where "ADS1115_CONFIG_MUX_SINGLE_0 = 0x4000"
definition ADS1115_CONFIG_MUX_SINGLE_1 :: int where "ADS1115_CONFIG_MUX_SINGLE_1 = 0x5000"
definition ADS1115_CONFIG_MUX_SINGLE_2 :: int where "ADS1115_CONFIG_MUX_SINGLE_2 = 0x6000"
definition ADS1115_CONFIG_MUX_SINGLE_3 :: int where "ADS1115_CONFIG_MUX_SINGLE_3 = 0x7000"
definition ADS1115_CONFIG_PGA_4_096V :: int where "ADS1115_CONFIG_PGA_4_096V = 0x0200"
definition ADS1115_CONFIG_MODE_SINGLE :: int where "ADS1115_CONFIG_MODE_SINGLE = 0x0100"
definition ADS1115_CONFIG_DR_128SPS :: int where "ADS1115_CONFIG_DR_128SPS = 0x0080"
definition ADS1115_CONFIG_CMODE_TRAD :: int where "ADS1115_CONFIG_CMODE_TRAD = 0x0000"
definition ADS1115_CONFIG_CPOL_ACTVLOW :: int where "ADS1115_CONFIG_CPOL_ACTVLOW = 0x0000"
definition ADS1115_CONFIG_CLATCH_NONLAT :: int where "ADS1115_CONFIG_CLATCH_NONLAT = 0x0000"
definition ADS1115_CONFIG_CQUE_NONE :: int where "ADS1115_CONFIG_CQUE_NONE = 0x0003"

definition ADS1115_POINTER_CONVERT :: int where "ADS1115_POINTER_CONVERT = 0x00"
definition ADS1115_POINTER_CONFIG :: int where "ADS1115_POINTER_CONFIG = 0x01"

section \<open>Exceptions\<close>

text \<open>
  The exceptions the module can see, all of them subclasses of Python's \<open>Exception\<close>.
  \<open>OSError\<close> is what smbus2 raises for a bus-level failure (no acknowledge, a bus device
  that cannot be opened); \<open>OtherException\<close> stands for any exception of the transport
  that is not an \<open>OSError\<close>. \<open>NameError\<close> carries the unbound name, \<open>AdsNotFound\<close>
  the two integers its message formats (channel, then address). \<open>AdsReadException\<close> is
  constructed in two places: in \<open>Device.read\<close> with the caught exception as its
  argument (\<open>Cause\<close>), and in \<open>search_i2c_memory\<close> with a message built from the caught
  exception (\<open>SearchMessage\<close>). Exceptions outside \<open>Exception\<close> (KeyboardInterrupt,
  SystemExit) are not modelled.
\<close>

datatype exn =
    OSError
  | OtherException
  | NameError string
  | IndexError
  | AdsNotFound int int
  | AdsReadException ads_args
and ads_args =
    Cause exn
  | SearchMessage exn

fun is_OSError :: "exn \<Rightarrow> bool" where
  "is_OSError OSError = True"
| "is_OSError _ = False"

section \<open>The I2C transport and the trace of effects\<close>

text \<open>
  Every effect of the module is recorded, in order, in a trace. The bus handle returned by
  \<open>smbus.SMBus(i2c_channel)\<close> is identified with the channel number it was opened on.
\<close>

datatype message = Searching | ErrorReadingVoltage exn

datatype event =
    Open int                          \<comment> \<open>\<open>smbus.SMBus(i2c_channel)\<close>\<close>
  | WriteQuick int int                \<comment> \<open>\<open>bus.write_quick(address)\<close>: bus, address\<close>
  | WriteBlock int int int "int list" \<comment> \<open>\<open>bus.write_i2c_block_data\<close>: bus, address, register, data\<close>
  | ReadBlock int int int int         \<comment> \<open>\<open>bus.read_i2c_block_data\<close>: bus, address, register, length\<close>
  | Sleep nat                         \<comment> \<open>\<open>time.sleep\<close>, in milliseconds\<close>
  | Print message                     \<comment> \<open>\<open>print\<close>\<close>

text \<open>
  The smbus2 library and the hardware behind it are not part of the repository: they are a
  parameter. A transport answers each request from the trace so far (so its answers may
  depend on everything done before, as a device with registers does) and the request's
  arguments: \<open>None\<close> is success for the operations that return nothing, \<open>Some e\<close> and
  \<open>Inl e\<close> are the exception raised.
\<close>

record transport =
  smbus_open :: "event list \<Rightarrow> int \<Rightarrow> exn option"
  smbus_write_quick :: "event list \<Rightarrow> int \<Rightarrow> int \<Rightarrow> exn option"
  smbus_write_i2c_block_data :: "event list \<Rightarrow> int \<Rightarrow> int \<Rightarrow> int \<Rightarrow> int list \<Rightarrow> exn option"
  smbus_read_i2c_block_data :: "event list \<Rightarrow> int \<Rightarrow> int \<Rightarrow> int \<Rightarrow> int \<Rightarrow> exn + int list"

text \<open>
  A computation takes the trace and returns its outcome (\<open>Inl\<close> an exception raised,
  \<open>Inr\<close> a value returned) with the extended trace.
\<close>

type_synonym 'a io = "event list \<Rightarrow> (exn + 'a) \<times> event list"

definition return_io :: "'a \<Rightarrow> 'a io" where
  "return_io x s = (Inr x, s)"

definition raise_io :: "exn \<Rightarrow> 'a io" where
  "raise_io e s = (Inl e, s)"

definition bind_io :: "'a io \<Rightarrow> ('a \<Rightarrow> 'b io) \<Rightarrow> 'b io" where
  "bind_io m f s = (case m s of (Inl e, s') \<Rightarrow> (Inl e, s') | (Inr x, s') \<Rightarrow> f x s')"

definition try_except :: "'a io \<Rightarrow> (exn \<Rightarrow> 'a io) \<Rightarrow> 'a io" where
  "try_except m handler s = (case m s of (Inl e, s') \<Rightarrow> handler e s' | (Inr x, s') \<Rightarrow> (Inr x, s'))"

definition of_option :: "exn option \<Rightarrow> 'a \<Rightarrow> exn + 'a" where
  "of_option r x = (case r of None \<Rightarrow> Inr x | Some e \<Rightarrow> Inl e)"

definition SMBus :: "transport \<Rightarrow> int \<Rightarrow> int io" where
  "SMBus T chan s = (of_option (smbus_open T s chan) chan, s @ [Open chan])"

definition write_quick :: "transport \<Rightarrow> int \<Rightarrow> int \<Rightarrow> unit io" where
  "write_quick T bus addr s =
     (of_option (smbus_write_quick T s bus addr) (), s @ [WriteQuick bus addr])"

definition write_i2c_block_data :: "transport \<Rightarrow> int \<Rightarrow> int \<Rightarrow> int \<Rightarrow> int list \<Rightarrow> unit io" where
  "write_i2c_block_data T bus addr reg bytes s =
     (of_option (smbus_write_i2c_block_data T s bus addr reg bytes) (),
      s @ [WriteBlock bus addr reg bytes])"

definition read_i2c_block_data :: "transport \<Rightarrow> int \<Rightarrow> int \<Rightarrow> int \<Rightarrow> int \<Rightarrow> int list io" where
  "read_i2c_block_data T bus addr reg len s =
     (smbus_read_i2c_block_data T s bus addr reg len, s @ [ReadBlock bus addr reg len])"

definition sleep :: "nat \<Rightarrow> unit io" where
  "sleep ms s = (Inr (), s @ [Sleep ms])"

definition print :: "message \<Rightarrow> unit io" where
  "print m s = (Inr (), s @ [Print m])"

text \<open>\<open>xs[i]\<close> for a constant index \<open>i \<ge> 0\<close>: IndexError out of range.\<close>

definition getitem :: "'a list \<Rightarrow> nat \<Rightarrow> 'a io" where
  "getitem xs i = (if i < length xs then return_io (xs ! i) else raise_io IndexError)"

section \<open>Device\<close>

text \<open>
  \<open>Device.__init__\<close> stores its three arguments on the instance. The methods
  \<open>_read_logical_port\<close> and \<open>_check_if_device_exists\<close> are \<open>read_logical_port\<close> and
  \<open>check_if_device_exists\<close> below: a name cannot start with an underscore here.
\<close>

record 'r Device =
  address :: int
  resolution :: 'r
  i2c_channel :: int

definition Device_init :: "int \<Rightarrow> 'r \<Rightarrow> int \<Rightarrow> 'r Device" where
  "Device_init addr res chan = \<lparr>address = addr, resolution = res, i2c_channel = chan\<rparr>"

text \<open>
  The module's global namespace, for the three names that \<open>Device.read\<close> looks up there:
  \<open>None\<close> is an unbound name. They are bound only by the \<open>__main__\<close> block of the
  module (lines 163 to 166).
\<close>

record 'r globals =
  g_address :: "int option"
  g_resolution :: "'r option"
  g_i2c_channel :: "int option"

definition load_global :: "string \<Rightarrow> 'a option \<Rightarrow> 'a io" where
  "load_global name v = (case v of None \<Rightarrow> raise_io (NameError name) | Some x \<Rightarrow> return_io x)"

subsection \<open>\<open>read_channel\<close> (lines 55 to 88)\<close>

text \<open>The configuration word assembled at lines 56 to 66.\<close>

definition config_word :: "int \<Rightarrow> int" where
  "config_word mux_config =
     (ADS1115_CONFIG_OS_SINGLE OR
      mux_config OR
      ADS1115_CONFIG_PGA_4_096V OR
      ADS1115_CONFIG_MODE_SINGLE OR
      ADS1115_CONFIG_DR_128SPS OR
      ADS1115_CONFIG_CMODE_TRAD OR
      ADS1115_CONFIG_CPOL_ACTVLOW OR
      ADS1115_CONFIG_CLATCH_NONLAT OR
      ADS1115_CONFIG_CQUE_NONE)"

text \<open>The two bytes passed to \<open>write_i2c_block_data\<close> at line 69.\<close>

definition config_bytes :: "int \<Rightarrow> int list" where
  "config_bytes config = [drop_bit 8 config AND 0xFF, config AND 0xFF]"

text \<open>Lines 78 to 82: the 16-bit value of the two bytes read, then the adjustment to signed.\<close>

definition signed_value :: "int \<Rightarrow> int \<Rightarrow> int" where
  "signed_value b0 b1 =
     (let v = push_bit 8 b0 OR b1
      in if v > 32767 then v - 65536 else v)"

text \<open>
  \<open>resolution\<close> is a Python float and \<open>value * resolution\<close> a floating-point product.
  The product is the parameter \<open>fmul\<close>, so nothing is assumed about its rounding.
\<close>

definition read_channel ::
  "transport \<Rightarrow> (int \<Rightarrow> 'r \<Rightarrow> 'r) \<Rightarrow> int \<Rightarrow> int \<Rightarrow> 'r \<Rightarrow> int \<Rightarrow> 'r io" where
  "read_channel T fmul bus addr res mux_config =
     bind_io (write_i2c_block_data T bus addr ADS1115_POINTER_CONFIG
                (config_bytes (config_word mux_config))) (\<lambda>_.
     bind_io (sleep 100) (\<lambda>_.
     bind_io (read_i2c_block_data T bus addr ADS1115_POINTER_CONVERT 2) (\<lambda>result.
     bind_io (getitem result 0) (\<lambda>b0.
     bind_io (getitem result 1) (\<lambda>b1.
     return_io (fmul (signed_value b0 b1) res))))))"

subsection \<open>\<open>Device._read_logical_port\<close> (lines 37 to 102)\<close>

text \<open>The body of the \<open>try\<close> block, lines 51 to 99.\<close>

definition read_four_channels ::
  "transport \<Rightarrow> (int \<Rightarrow> 'r \<Rightarrow> 'r) \<Rightarrow> int \<Rightarrow> 'r \<Rightarrow> int \<Rightarrow> 'r list io" where
  "read_four_channels T fmul addr res chan =
     bind_io (SMBus T chan) (\<lambda>bus.
     let voltages = [] in
     bind_io (read_channel T fmul bus addr res ADS1115_CONFIG_MUX_SINGLE_0) (\<lambda>v0.
     let voltages = voltages @ [v0] in
     bind_io (read_channel T fmul bus addr res ADS1115_CONFIG_MUX_SINGLE_1) (\<lambda>v1.
     let voltages = voltages @ [v1] in
     bind_io (read_channel T fmul bus addr res ADS1115_CONFIG_MUX_SINGLE_2) (\<lambda>v2.
     let voltages = voltages @ [v2] in
     bind_io (read_channel T fmul bus addr res ADS1115_CONFIG_MUX_SINGLE_3) (\<lambda>v3.
     let voltages = voltages @ [v3] in
     return_io voltages)))))"

text \<open>The whole method: the \<open>try\<close> block under its handler of lines 100 to 102.\<close>

definition read_logical_port ::
  "transport \<Rightarrow> (int \<Rightarrow> 'r \<Rightarrow> 'r) \<Rightarrow> int \<Rightarrow> 'r \<Rightarrow> int \<Rightarrow> 'r list io" where
  "read_logical_port T fmul addr res chan =
     try_except
       (read_four_channels T fmul addr res chan)
       (\<lambda>error. bind_io (print (ErrorReadingVoltage error)) (\<lambda>_. return_io []))"

subsection \<open>\<open>Device._check_if_device_exists\<close> (lines 104 to 125)\<close>

definition check_if_device_exists :: "transport \<Rightarrow> int \<Rightarrow> int \<Rightarrow> bool io" where
  "check_if_device_exists T chan addr =
     try_except
       (bind_io (SMBus T chan) (\<lambda>bus.
        bind_io (write_quick T bus addr) (\<lambda>_.
        return_io True)))
       (\<lambda>e. if is_OSError e then return_io False else raise_io e)"

subsection \<open>\<open>Device.read\<close> (lines 127 to 133)\<close>

text \<open>
  The probe is called on \<open>self.i2c_channel\<close> and \<open>self.address\<close>. The arguments of
  \<open>_read_logical_port\<close> and the fields of the \<open>AdsNotFound\<close> message are the bare names
  \<open>address\<close>, \<open>resolution\<close> and \<open>i2c_channel\<close>: inside a method these are looked up in
  the module's globals, in the order in which they are evaluated.
\<close>

definition read :: "transport \<Rightarrow> (int \<Rightarrow> 'r \<Rightarrow> 'r) \<Rightarrow> 'r globals \<Rightarrow> 'r Device \<Rightarrow> 'r list io" where
  "read T fmul G self =
     try_except
       (bind_io (check_if_device_exists T (i2c_channel self) (address self)) (\<lambda>found.
        if found then
          bind_io (load_global ''address'' (g_address G)) (\<lambda>a.
          bind_io (load_global ''resolution'' (g_resolution G)) (\<lambda>r.
          bind_io (load_global ''i2c_channel'' (g_i2c_channel G)) (\<lambda>c.
          read_logical_port T fmul a r c)))
        else
          bind_io (load_global ''i2c_channel'' (g_i2c_channel G)) (\<lambda>c.
          bind_io (load_global ''address'' (g_address G)) (\<lambda>a.
          raise_io (AdsNotFound c a)))))
       (\<lambda>e. raise_io (AdsReadException (Cause e)))"

section \<open>\<open>search_i2c_memory\<close> (lines 136 to 157)\<close>

text \<open>\<open>range(lo, hi)\<close>: the integers from \<open>lo\<close> up to \<open>hi - 1\<close>.\<close>

definition range_py :: "int \<Rightarrow> int \<Rightarrow> int list" where
  "range_py lo hi = [lo..hi - 1]"

text \<open>
  The \<open>for\<close> loop of lines 142 to 147 over the addresses still to probe, with the list
  \<open>available_devices\<close> collected so far. An \<open>OSError\<close> of a probe is passed over; any
  other exception leaves the loop.
\<close>

fun scan_loop :: "transport \<Rightarrow> int \<Rightarrow> int list \<Rightarrow> int list \<Rightarrow> int list io" where
  "scan_loop T bus [] available_devices = return_io available_devices"
| "scan_loop T bus (addr # rest) available_devices =
     bind_io
       (try_except
          (bind_io (write_quick T bus addr) (\<lambda>_. return_io (available_devices @ [addr])))
          (\<lambda>e. if is_OSError e then return_io available_devices else raise_io e))
       (\<lambda>available_devices'. scan_loop T bus rest available_devices')"

definition search_i2c_memory :: "transport \<Rightarrow> int \<Rightarrow> int list option io" where
  "search_i2c_memory T chan =
     try_except
       (bind_io (SMBus T chan) (\<lambda>bus.
        bind_io (print Searching) (\<lambda>_.
        bind_io (scan_loop T bus (range_py 0x03 0x78) []) (\<lambda>available_devices.
        if available_devices \<noteq> [] then return_io (Some available_devices)
        else return_io None))))
       (\<lambda>error. raise_io (AdsReadException (SearchMessage error)))"

section \<open>Vocabulary of the properties\<close>

text \<open>
  Whether the transport answers a block transfer, requested after the trace \<open>pre\<close>, by
  raising; and whether it does so for some block transfer of a sequence of events that follows
  \<open>pre\<close>.
\<close>

fun transfer_failed :: "transport \<Rightarrow> event list \<Rightarrow> event \<Rightarrow> bool" where
  "transfer_failed T pre (WriteBlock bus addr reg bytes) =
     (smbus_write_i2c_block_data T pre bus addr reg bytes \<noteq> None)"
| "transfer_failed T pre (ReadBlock bus addr reg len) =
     isl (smbus_read_i2c_block_data T pre bus addr reg len)"
| "transfer_failed T pre _ = False"

fun some_transfer_failed :: "transport \<Rightarrow> event list \<Rightarrow> event list \<Rightarrow> bool" where
  "some_transfer_failed T pre [] = False"
| "some_transfer_failed T pre (ev # evs) =
     (transfer_failed T pre ev \<or> some_transfer_failed T (pre @ [ev]) evs)"

text \<open>The events a computation adds to the trace it starts from.\<close>

definition emitted :: "'a io \<Rightarrow> event list \<Rightarrow> event list" where
  "emitted m s = drop (length s) (snd (m s))"

text \<open>The block writes among a list of events: address, register and data of each.\<close>

fun block_writes :: "event list \<Rightarrow> (int \<times> int \<times> int list) list" where
  "block_writes [] = []"
| "block_writes (WriteBlock bus addr reg bytes # evs) = (addr, reg, bytes) # block_writes evs"
| "block_writes (_ # evs) = block_writes evs"

text \<open>
  The events of one channel's read that runs to its end, and the transport's answer to the
  conversion read of a channel whose read starts at trace \<open>s\<close>.
\<close>

definition channel_events :: "int \<Rightarrow> int \<Rightarrow> int \<Rightarrow> event list" where
  "channel_events bus addr mux_config =
     [WriteBlock bus addr 0x01 (config_bytes (config_word mux_config)),
      Sleep 100,
      ReadBlock bus addr 0x00 2]"

definition conversion :: "transport \<Rightarrow> event list \<Rightarrow> int \<Rightarrow> int \<Rightarrow> int \<Rightarrow> exn + int list" where
  "conversion T s bus addr mux_config =
     smbus_read_i2c_block_data T
       (s @ [WriteBlock bus addr 0x01 (config_bytes (config_word mux_config)), Sleep 100])
       bus addr 0x00 2"

text \<open>
  The multiplexer selections in the order in which lines 94 to 97 read them; the trace at
  which the read of channel \<open>k\<close> starts in a cycle started at \<open>s\<close>, when the
  channels before it were read to their end; and the raw sample of channel \<open>k\<close>, decoded
  from the transport's answer to its conversion read (\<open>None\<close> when the answer is an
  exception or has fewer than two bytes).
\<close>

definition mux_configs :: "int list" where
  "mux_configs =
     [ADS1115_CONFIG_MUX_SINGLE_0, ADS1115_CONFIG_MUX_SINGLE_1,
      ADS1115_CONFIG_MUX_SINGLE_2, ADS1115_CONFIG_MUX_SINGLE_3]"

definition channel_start :: "event list \<Rightarrow> int \<Rightarrow> int \<Rightarrow> nat \<Rightarrow> event list" where
  "channel_start s chan addr k =
     s @ [Open chan] @ concat (map (channel_events chan addr) (take k mux_configs))"

definition raw_sample :: "transport \<Rightarrow> event list \<Rightarrow> int \<Rightarrow> int \<Rightarrow> nat \<Rightarrow> int option" where
  "raw_sample T s chan addr k =
     (case conversion T (channel_start s chan addr k) chan addr (mux_configs ! k) of
        Inr (b0 # b1 # _) \<Rightarrow> Some (signed_value b0 b1)
      | _ \<Rightarrow> None)"

text \<open>
  The trace at which a scan started at \<open>s\<close> probes address \<open>a\<close>, and the transport's
  answer to that probe.
\<close>

definition probe_trace :: "event list \<Rightarrow> int \<Rightarrow> int \<Rightarrow> event list" where
  "probe_trace s chan a = s @ [Open chan, Print Searching] @ map (WriteQuick chan) [0x03..a - 1]"

definition probe_answer :: "transport \<Rightarrow> event list \<Rightarrow> int \<Rightarrow> int \<Rightarrow> exn option" where
  "probe_answer T s chan a = smbus_write_quick T (probe_trace s chan a) chan a"

section \<open>Transports for the examples\<close>

text \<open>The data of the latest block write of a trace.\<close>

fun latest_config :: "event list \<Rightarrow> int list option" where
  "latest_config [] = None"
| "latest_config (WriteBlock bus addr reg bytes # evs) =
     (case latest_config evs of None \<Rightarrow> Some bytes | Some later \<Rightarrow> Some later)"
| "latest_config (_ # evs) = latest_config evs"

text \<open>
  A device whose four inputs convert to 4095, 32767, -32768 and -1: the conversion register
  holds the sample of the input that the latest configuration selected.
\<close>

definition stub_conversion :: "event list \<Rightarrow> int list" where
  "stub_conversion s =
     (case latest_config s of
        Some (hi # _) \<Rightarrow>
          (if hi = 0xC3 then [0x0F, 0xFF]
           else if hi = 0xD3 then [0x7F, 0xFF]
           else if hi = 0xE3 then [0x80, 0x00]
           else if hi = 0xF3 then [0xFF, 0xFF]
           else [0x00, 0x00])
      | _ \<Rightarrow> [0x00, 0x00])"

text \<open>Bus 0 exists, and the only device on it answers at 0x48.\<close>

definition stub_transport :: transport where
  "stub_transport =
     \<lparr>smbus_open = (\<lambda>s chan. if chan = 0 then None else Some OSError),
      smbus_write_quick = (\<lambda>s bus addr. if addr = 0x48 then None else Some OSError),
      smbus_write_i2c_block_data = (\<lambda>s bus addr reg bytes. if addr = 0x48 then None else Some OSError),
      smbus_read_i2c_block_data =
        (\<lambda>s bus addr reg len. if addr = 0x48 then Inr (stub_conversion s) else Inl OSError)\<rparr>"

text \<open>The same device, except that the conversion read of input 2 is not acknowledged.\<close>

definition flaky_transport :: transport where
  "flaky_transport =
     stub_transport
     \<lparr>smbus_read_i2c_block_data :=
        (\<lambda>s bus addr reg len.
           if latest_config s = Some [0xE3, 0x83] then Inl OSError
           else smbus_read_i2c_block_data stub_transport s bus addr reg len)\<rparr>"

text \<open>Bus 0 exists and no address on it acknowledges.\<close>

definition nack_transport :: transport where
  "nack_transport =
     \<lparr>smbus_open = (\<lambda>s chan. if chan = 0 then None else Some OSError),
      smbus_write_quick = (\<lambda>s bus addr. Some OSError),
      smbus_write_i2c_block_data = (\<lambda>s bus addr reg bytes. Some OSError),
      smbus_read_i2c_block_data = (\<lambda>s bus addr reg len. Inl OSError)\<rparr>"

text \<open>The product of a raw sample and a resolution, for the examples.\<close>

definition volts :: "int \<Rightarrow> rat \<Rightarrow> rat" where
  "volts x r = of_int x * r"

text \<open>The globals as the \<open>__main__\<close> block binds them, and as an importing module finds them.\<close>

definition main_globals :: "rat globals" where
  "main_globals = \<lparr>g_address = Some 0x48, g_resolution = Some (1 / 8000), g_i2c_channel = Some 0\<rparr>"

definition no_globals :: "rat globals" where
  "no_globals = \<lparr>g_address = None, g_resolution = None, g_i2c_channel = None\<rparr>"

section \<open>Unfolding the computations\<close>

lemmas ADS1115_constants =
  ADS1115_CONFIG_OS_SINGLE_def ADS1115_CONFIG_MUX_SINGLE_0_def ADS1115_CONFIG_MUX_SINGLE_1_def
  ADS1115_CONFIG_MUX_SINGLE_2_def ADS1115_CONFIG_MUX_SINGLE_3_def ADS1115_CONFIG_PGA_4_096V_def
  ADS1115_CONFIG_MODE_SINGLE_def ADS1115_CONFIG_DR_128SPS_def ADS1115_CONFIG_CMODE_TRAD_def
  ADS1115_CONFIG_CPOL_ACTVLOW_def ADS1115_CONFIG_CLATCH_NONLAT_def ADS1115_CONFIG_CQUE_NONE_def
  ADS1115_POINTER_CONVERT_def ADS1115_POINTER_CONFIG_def

lemmas io_defs = return_io_def raise_io_def bind_io_def try_except_def of_option_def
  SMBus_def write_quick_def write_i2c_block_data_def read_i2c_block_data_def sleep_def
  print_def getitem_def load_global_def

subsection \<open>One channel\<close>

text \<open>
  The three ways a channel's read ends: the configuration write raises; the conversion read
  raises; the conversion read answers, and the read returns a voltage or, on fewer than two
  bytes, raises IndexError.
\<close>

lemma read_channel_unfold:
  "read_channel T fmul bus addr res mux s =
     (case smbus_write_i2c_block_data T s bus addr 0x01 (config_bytes (config_word mux)) of
        Some e \<Rightarrow> (Inl e, s @ [WriteBlock bus addr 0x01 (config_bytes (config_word mux))])
      | None \<Rightarrow>
          (case conversion T s bus addr mux of
             Inl e \<Rightarrow> (Inl e, s @ channel_events bus addr mux)
           | Inr result \<Rightarrow>
               (if 2 \<le> length result
                then Inr (fmul (signed_value (result ! 0) (result ! 1)) res)
                else Inl IndexError, s @ channel_events bus addr mux)))"
  by (auto simp: read_channel_def io_defs conversion_def channel_events_def ADS1115_constants
      split: option.splits sum.splits)

lemma read_channel_Inr:
  assumes "read_channel T fmul bus addr res mux s = (Inr v, s')"
  shows "s' = s @ channel_events bus addr mux"
    and "\<exists>b0 b1 bs. conversion T s bus addr mux = Inr (b0 # b1 # bs) \<and> v = fmul (signed_value b0 b1) res"
    and "\<not> some_transfer_failed T s (channel_events bus addr mux)"
  using assms
    apply (auto simp: read_channel_unfold split: option.splits sum.splits if_splits)
   apply (case_tac x2; simp)
   apply (case_tac list; simp)
  apply (simp add: channel_events_def conversion_def)
  done

lemma read_channel_Inl:
  assumes "read_channel T fmul bus addr res mux s = (Inl e, s')"
  shows "\<exists>evs. s' = s @ evs \<and> prefix evs (channel_events bus addr mux)
           \<and> block_writes evs = [(addr, 0x01, config_bytes (config_word mux))]"
  using assms
  by (auto simp: read_channel_unfold channel_events_def prefix_def split: option.splits sum.splits if_splits)

lemma block_writes_append: "block_writes (xs @ ys) = block_writes xs @ block_writes ys"
  by (induction xs rule: block_writes.induct) simp_all

lemma block_writes_channel_events:
  "block_writes (channel_events bus addr mux) = [(addr, 0x01, config_bytes (config_word mux))]"
  by (simp add: channel_events_def)

lemma some_transfer_failed_append:
  "some_transfer_failed T pre (xs @ ys) \<longleftrightarrow>
     some_transfer_failed T pre xs \<or> some_transfer_failed T (pre @ xs) ys"
  by (induction xs arbitrary: pre) simp_all

subsection \<open>The four channels\<close>

lemma channel_start_0: "channel_start s chan addr 0 = s @ [Open chan]"
  by (simp add: channel_start_def)

lemma channel_start_steps:
  "channel_start s chan addr 1 = channel_start s chan addr 0 @ channel_events chan addr ADS1115_CONFIG_MUX_SINGLE_0"
  "channel_start s chan addr 2 = channel_start s chan addr 1 @ channel_events chan addr ADS1115_CONFIG_MUX_SINGLE_1"
  "channel_start s chan addr 3 = channel_start s chan addr 2 @ channel_events chan addr ADS1115_CONFIG_MUX_SINGLE_2"
  "channel_start s chan addr 4 = channel_start s chan addr 3 @ channel_events chan addr ADS1115_CONFIG_MUX_SINGLE_3"
  by (simp_all add: channel_start_def mux_configs_def)

lemma mux_configs_nth:
  "mux_configs ! 0 = ADS1115_CONFIG_MUX_SINGLE_0" "mux_configs ! 1 = ADS1115_CONFIG_MUX_SINGLE_1"
  "mux_configs ! 2 = ADS1115_CONFIG_MUX_SINGLE_2" "mux_configs ! 3 = ADS1115_CONFIG_MUX_SINGLE_3"
  by (simp_all add: mux_configs_def)

lemma read_four_channels_Inr:
  fixes s :: "event list" and chan addr :: int
  defines "s0 \<equiv> s @ [Open chan]"
  defines "s1 \<equiv> s0 @ channel_events chan addr ADS1115_CONFIG_MUX_SINGLE_0"
  defines "s2 \<equiv> s1 @ channel_events chan addr ADS1115_CONFIG_MUX_SINGLE_1"
  defines "s3 \<equiv> s2 @ channel_events chan addr ADS1115_CONFIG_MUX_SINGLE_2"
  defines "s4 \<equiv> s3 @ channel_events chan addr ADS1115_CONFIG_MUX_SINGLE_3"
  assumes "read_four_channels T fmul addr res chan s = (Inr vs, s')"
  shows "smbus_open T s chan = None \<and> s' = s4 \<and>
    (\<exists>v0 v1 v2 v3. vs = [v0, v1, v2, v3] \<and>
       read_channel T fmul chan addr res ADS1115_CONFIG_MUX_SINGLE_0 s0 = (Inr v0, s1) \<and>
       read_channel T fmul chan addr res ADS1115_CONFIG_MUX_SINGLE_1 s1 = (Inr v1, s2) \<and>
       read_channel T fmul chan addr res ADS1115_CONFIG_MUX_SINGLE_2 s2 = (Inr v2, s3) \<and>
       read_channel T fmul chan addr res ADS1115_CONFIG_MUX_SINGLE_3 s3 = (Inr v3, s4))"
proof -
  note unf = read_four_channels_def bind_io_def SMBus_def of_option_def return_io_def
  from assms have op: "smbus_open T s chan = None"
    by (auto simp: unf split: option.splits)
  from assms op obtain v0 t1 where r0:
    "read_channel T fmul chan addr res ADS1115_CONFIG_MUX_SINGLE_0 s0 = (Inr v0, t1)"
    by (auto simp: unf split: sum.splits prod.splits)
  have t1: "t1 = s1"
    using read_channel_Inr(1)[OF r0] by (simp add: s1_def)
  from assms op r0 t1 obtain v1 t2 where r1:
    "read_channel T fmul chan addr res ADS1115_CONFIG_MUX_SINGLE_1 s1 = (Inr v1, t2)"
    by (auto simp: unf split: sum.splits prod.splits)
  have t2: "t2 = s2"
    using read_channel_Inr(1)[OF r1] by (simp add: s2_def)
  from assms op r0 t1 r1 t2 obtain v2 t3 where r2:
    "read_channel T fmul chan addr res ADS1115_CONFIG_MUX_SINGLE_2 s2 = (Inr v2, t3)"
    by (auto simp: unf split: sum.splits prod.splits)
  have t3: "t3 = s3"
    using read_channel_Inr(1)[OF r2] by (simp add: s3_def)
  from assms op r0 t1 r1 t2 r2 t3 obtain v3 t4 where r3:
    "read_channel T fmul chan addr res ADS1115_CONFIG_MUX_SINGLE_3 s3 = (Inr v3, t4)"
    by (auto simp: unf split: sum.splits prod.splits)
  have t4: "t4 = s4"
    using read_channel_Inr(1)[OF r3] by (simp add: s4_def)
  from assms(6) op r0 t1 r1 t2 r2 t3 r3 t4 have "vs = [v0, v1, v2, v3]" "s' = s4"
    unfolding s0_def [symmetric] by (auto simp: unf s0_def [symmetric] split: sum.splits prod.splits)
  with op r0 r1 r2 r3 t1 t2 t3 t4 show ?thesis by simp
qed

lemma read_four_channels_Inl:
  assumes "read_four_channels T fmul addr res chan s = (Inl e, s')"
  shows "\<exists>evs. s' = s @ evs \<and>
           prefix (block_writes evs)
             [(addr, 0x01, config_bytes (config_word ADS1115_CONFIG_MUX_SINGLE_0)),
              (addr, 0x01, config_bytes (config_word ADS1115_CONFIG_MUX_SINGLE_1)),
              (addr, 0x01, config_bytes (config_word ADS1115_CONFIG_MUX_SINGLE_2)),
              (addr, 0x01, config_bytes (config_word ADS1115_CONFIG_MUX_SINGLE_3))]"
  using assms
  by (auto simp: read_four_channels_def bind_io_def SMBus_def of_option_def return_io_def
      block_writes_append block_writes_channel_events
      split: sum.splits prod.splits option.splits
      dest!: read_channel_Inr(1) read_channel_Inl)

lemma read_logical_port_cases:
  "(\<exists>e s'. read_four_channels T fmul addr res chan s = (Inl e, s') \<and>
       read_logical_port T fmul addr res chan s = (Inr [], s' @ [Print (ErrorReadingVoltage e)]))
   \<or> (\<exists>vs s'. read_four_channels T fmul addr res chan s = (Inr vs, s') \<and>
       read_logical_port T fmul addr res chan s = (Inr vs, s'))"
  by (cases "read_four_channels T fmul addr res chan s")
    (auto simp: read_logical_port_def try_except_def bind_io_def print_def return_io_def
      split: sum.splits)

lemma raw_sample_conversion:
  "conversion T (channel_start s chan addr k) chan addr (mux_configs ! k) = Inr (b0 # b1 # bs)
     \<Longrightarrow> raw_sample T s chan addr k = Some (signed_value b0 b1)"
  by (simp add: raw_sample_def)

section \<open>Decoding the conversion register\<close>

lemma push_bit_or_byte:
  assumes "0 \<le> b1" "b1 < 256"
  shows "push_bit 8 b0 OR b1 = b0 * 256 + (b1::int)"
proof -
  have "take_bit 8 b1 = b1"
    using assms by (simp add: take_bit_int_eq_self)
  then have "push_bit 8 b0 OR b1 = push_bit 8 b0 OR take_bit 8 b1"
    by simp
  also have "\<dots> = push_bit 8 b0 + take_bit 8 b1"
    by (rule disjunctive_add_eq_or [symmetric]) (simp add: bit_eq_iff bit_simps)
  finally show ?thesis
    using \<open>take_bit 8 b1 = b1\<close> by (simp add: push_bit_eq_mult)
qed

text \<open>
  Claim C5. For bytes \<open>b0\<close> and \<open>b1\<close> (each in 0..255) read from the conversion
  register, the decoded raw sample is the big-endian value \<open>v = b0 * 256 + b1\<close> read as
  16-bit two's complement: \<open>v\<close> when \<open>v < 32768\<close>, and \<open>v - 65536\<close> otherwise; it
  lies in \<open>[-32768, 32767]\<close>.
\<close>

theorem signed_value_twos_complement:
  assumes "0 \<le> b0" "b0 < 256" "0 \<le> b1" "b1 < 256"
  shows "signed_value b0 b1 =
           (if b0 * 256 + b1 < 32768 then b0 * 256 + b1 else b0 * 256 + b1 - 65536)
         \<and> - 32768 \<le> signed_value b0 b1 \<and> signed_value b0 b1 \<le> 32767"
  using assms by (simp add: signed_value_def push_bit_or_byte Let_def)

text \<open>The three samples named with the claim: 0x7FFF, 0x8000 and 0xFFFF.\<close>

theorem signed_value_twos_complement_witness:
  "signed_value 0x7F 0xFF = 32767 \<and> signed_value 0x80 0x00 = - 32768 \<and>
   signed_value 0xFF 0xFF = - 1"
  using signed_value_twos_complement [of "0x7F" "0xFF"]
    signed_value_twos_complement [of "0x80" "0x00"]
    signed_value_twos_complement [of "0xFF" "0xFF"]
  by simp

section \<open>The voltages of a read cycle\<close>

text \<open>
  Claim C6. A read cycle that succeeds (it returns a list that is not empty) returns exactly
  four readings, in the order of the channels 0, 1, 2, 3: the reading of channel \<open>k\<close> is
  the product of the raw sample decoded from that channel's conversion read and the
  resolution, with nothing done to it afterwards. Nothing is asked of the resolution.
\<close>

theorem read_logical_port_voltages:
  assumes "fst (read_logical_port T fmul addr res chan s) = Inr vs" and "vs \<noteq> []"
  shows "\<exists>x0 x1 x2 x3.
           raw_sample T s chan addr 0 = Some x0 \<and> raw_sample T s chan addr 1 = Some x1 \<and>
           raw_sample T s chan addr 2 = Some x2 \<and> raw_sample T s chan addr 3 = Some x3 \<and>
           vs = [fmul x0 res, fmul x1 res, fmul x2 res, fmul x3 res]"
proof -
  from assms read_logical_port_cases [of T fmul addr res chan s]
  obtain s' where ok: "read_four_channels T fmul addr res chan s = (Inr vs, s')"
    by auto
  from read_four_channels_Inr [OF ok] obtain v0 v1 v2 v3 where
    vs: "vs = [v0, v1, v2, v3]" and
    r0: "read_channel T fmul chan addr res (mux_configs ! 0) (channel_start s chan addr 0)
           = (Inr v0, channel_start s chan addr 1)" and
    r1: "read_channel T fmul chan addr res (mux_configs ! 1) (channel_start s chan addr 1)
           = (Inr v1, channel_start s chan addr 2)" and
    r2: "read_channel T fmul chan addr res (mux_configs ! 2) (channel_start s chan addr 2)
           = (Inr v2, channel_start s chan addr 3)" and
    r3: "read_channel T fmul chan addr res (mux_configs ! 3) (channel_start s chan addr 3)
           = (Inr v3, channel_start s chan addr 4)"
    unfolding mux_configs_nth channel_start_steps channel_start_0 by auto
  from read_channel_Inr(2) [OF r0] raw_sample_conversion [of T s chan addr 0]
  obtain x0 where "raw_sample T s chan addr 0 = Some x0" "v0 = fmul x0 res" by auto
  moreover from read_channel_Inr(2) [OF r1] raw_sample_conversion [of T s chan addr 1]
  obtain x1 where "raw_sample T s chan addr 1 = Some x1" "v1 = fmul x1 res" by auto
  moreover from read_channel_Inr(2) [OF r2] raw_sample_conversion [of T s chan addr 2]
  obtain x2 where "raw_sample T s chan addr 2 = Some x2" "v2 = fmul x2 res" by auto
  moreover from read_channel_Inr(2) [OF r3] raw_sample_conversion [of T s chan addr 3]
  obtain x3 where "raw_sample T s chan addr 3 = Some x3" "v3 = fmul x3 res" by auto
  ultimately show ?thesis using vs by simp
qed

text \<open>
  The stub device with resolution 1/8000 volts per bit: the samples 4095, 32767, -32768
  and -1 of the four inputs, in this order.
\<close>

theorem read_logical_port_voltages_witness:
  "fst (read_logical_port stub_transport volts 0x48 (1 / 8000) 0 [])
     = Inr [819 / 1600, 32767 / 8000, - (512 / 125), - (1 / 8000)] \<and>
   (\<exists>x0 x1 x2 x3.
      raw_sample stub_transport [] 0 0x48 0 = Some x0 \<and>
      raw_sample stub_transport [] 0 0x48 1 = Some x1 \<and>
      raw_sample stub_transport [] 0 0x48 2 = Some x2 \<and>
      raw_sample stub_transport [] 0 0x48 3 = Some x3 \<and>
      [819 / 1600, 32767 / 8000, - (512 / 125), - (1 / 8000)]
        = [volts x0 (1 / 8000), volts x1 (1 / 8000), volts x2 (1 / 8000), volts x3 (1 / 8000)])"
proof -
  have run: "fst (read_logical_port stub_transport volts 0x48 (1 / 8000) 0 [])
     = Inr [819 / 1600, 32767 / 8000, - (512 / 125), - (1 / 8000)]"
    by code_simp
  have ne: "[819 / 1600, 32767 / 8000, - (512 / 125), - (1 / 8000) :: rat] \<noteq> []"
    by simp
  from read_logical_port_voltages [OF run ne] run show ?thesis
    by blast
qed

section \<open>Failure of a transfer during a read cycle\<close>

lemma read_four_channels_Inr_no_failure:
  assumes "read_four_channels T fmul addr res chan s = (Inr vs, s')"
  shows "\<exists>evs. s' = s @ evs \<and> \<not> some_transfer_failed T s evs \<and> length vs = 4 \<and>
           block_writes evs = map (\<lambda>mux. (addr, 0x01, config_bytes (config_word mux))) mux_configs"
proof -
  let ?ce = "channel_events chan addr"
  let ?evs = "[Open chan] @ ?ce ADS1115_CONFIG_MUX_SINGLE_0 @ ?ce ADS1115_CONFIG_MUX_SINGLE_1
     @ ?ce ADS1115_CONFIG_MUX_SINGLE_2 @ ?ce ADS1115_CONFIG_MUX_SINGLE_3"
  from read_four_channels_Inr [OF assms] obtain v0 v1 v2 v3 where
    s': "s' = s @ ?evs" and vs: "vs = [v0, v1, v2, v3]" and
    r0: "read_channel T fmul chan addr res ADS1115_CONFIG_MUX_SINGLE_0 (s @ [Open chan])
           = (Inr v0, (s @ [Open chan]) @ ?ce ADS1115_CONFIG_MUX_SINGLE_0)" and
    r1: "read_channel T fmul chan addr res ADS1115_CONFIG_MUX_SINGLE_1
           ((s @ [Open chan]) @ ?ce ADS1115_CONFIG_MUX_SINGLE_0)
           = (Inr v1, ((s @ [Open chan]) @ ?ce ADS1115_CONFIG_MUX_SINGLE_0) @ ?ce ADS1115_CONFIG_MUX_SINGLE_1)" and
    r2: "read_channel T fmul chan addr res ADS1115_CONFIG_MUX_SINGLE_2
           (((s @ [Open chan]) @ ?ce ADS1115_CONFIG_MUX_SINGLE_0) @ ?ce ADS1115_CONFIG_MUX_SINGLE_1)
           = (Inr v2, (((s @ [Open chan]) @ ?ce ADS1115_CONFIG_MUX_SINGLE_0) @ ?ce ADS1115_CONFIG_MUX_SINGLE_1)
                 @ ?ce ADS1115_CONFIG_MUX_SINGLE_2)" and
    r3: "read_channel T fmul chan addr res ADS1115_CONFIG_MUX_SINGLE_3
           ((((s @ [Open chan]) @ ?ce ADS1115_CONFIG_MUX_SINGLE_0) @ ?ce ADS1115_CONFIG_MUX_SINGLE_1)
                 @ ?ce ADS1115_CONFIG_MUX_SINGLE_2)
           = (Inr v3, ((((s @ [Open chan]) @ ?ce ADS1115_CONFIG_MUX_SINGLE_0) @ ?ce ADS1115_CONFIG_MUX_SINGLE_1)
                 @ ?ce ADS1115_CONFIG_MUX_SINGLE_2) @ ?ce ADS1115_CONFIG_MUX_SINGLE_3)"
    by auto
  have "\<not> some_transfer_failed T s ?evs"
    using read_channel_Inr(3) [OF r0] read_channel_Inr(3) [OF r1]
      read_channel_Inr(3) [OF r2] read_channel_Inr(3) [OF r3]
    by (simp add: some_transfer_failed_append)
  moreover have "block_writes ?evs = map (\<lambda>mux. (addr, 0x01, config_bytes (config_word mux))) mux_configs"
    by (simp add: block_writes_append block_writes_channel_events mux_configs_def)
  ultimately show ?thesis using s' vs by simp
qed

text \<open>
  Claim C2, as the code has it. When the configuration write or the conversion read of any
  of the four channels raises, \<open>_read_logical_port\<close> does not fail: its handler prints
  the error and the call returns the empty list as a normal result. No partial list is
  returned: the result is the empty list or a list of four voltages, so the voltages of the
  channels already read are dropped.
\<close>

theorem read_logical_port_failure_gives_empty_list:
  "(some_transfer_failed T s (emitted (read_logical_port T fmul addr res chan) s)
      \<longrightarrow> fst (read_logical_port T fmul addr res chan s) = Inr [])
   \<and> (\<exists>vs. fst (read_logical_port T fmul addr res chan s) = Inr vs \<and> (vs = [] \<or> length vs = 4))"
proof -
  from read_logical_port_cases [of T fmul addr res chan s] show ?thesis
  proof (elim disjE exE conjE)
    fix e s'
    assume "read_logical_port T fmul addr res chan s = (Inr [], s' @ [Print (ErrorReadingVoltage e)])"
    then show ?thesis by simp
  next
    fix vs s'
    assume body: "read_four_channels T fmul addr res chan s = (Inr vs, s')"
      and port: "read_logical_port T fmul addr res chan s = (Inr vs, s')"
    from read_four_channels_Inr_no_failure [OF body] obtain evs where
      "s' = s @ evs" "\<not> some_transfer_failed T s evs" "length vs = 4"
      by blast
    with port show ?thesis
      by (simp add: emitted_def)
  qed
qed

text \<open>
  The conversion read of input 2 is not acknowledged: the cycle stops there, prints, and
  returns the empty list.
\<close>

theorem read_logical_port_failure_gives_empty_list_witness:
  "some_transfer_failed flaky_transport [] (emitted (read_logical_port flaky_transport volts 0x48 (1 / 8000) 0) [])
   \<and> read_logical_port flaky_transport volts 0x48 (1 / 8000) 0 [] =
      (Inr [],
       [Open 0,
        WriteBlock 0 0x48 0x01 [0xC3, 0x83], Sleep 100, ReadBlock 0 0x48 0x00 2,
        WriteBlock 0 0x48 0x01 [0xD3, 0x83], Sleep 100, ReadBlock 0 0x48 0x00 2,
        WriteBlock 0 0x48 0x01 [0xE3, 0x83], Sleep 100, ReadBlock 0 0x48 0x00 2,
        Print (ErrorReadingVoltage OSError)])"
proof -
  have run: "read_logical_port flaky_transport volts 0x48 (1 / 8000) 0 [] =
      (Inr [],
       [Open 0,
        WriteBlock 0 0x48 0x01 [0xC3, 0x83], Sleep 100, ReadBlock 0 0x48 0x00 2,
        WriteBlock 0 0x48 0x01 [0xD3, 0x83], Sleep 100, ReadBlock 0 0x48 0x00 2,
        WriteBlock 0 0x48 0x01 [0xE3, 0x83], Sleep 100, ReadBlock 0 0x48 0x00 2,
        Print (ErrorReadingVoltage OSError)])"
    by code_simp
  have failed: "some_transfer_failed flaky_transport []
      (emitted (read_logical_port flaky_transport volts 0x48 (1 / 8000) 0) [])"
    by code_simp
  from read_logical_port_failure_gives_empty_list
    [of flaky_transport "[]" volts "0x48" "1 / 8000" 0] failed run
  show ?thesis by simp
qed

text \<open>
  Claim C2 as stated asks that the whole call fail. On the same device \<open>Device.read\<close>,
  with the globals that the \<open>__main__\<close> block binds, returns the empty list and raises
  nothing, although a transfer of its cycle failed.
\<close>

theorem read_failure_not_signalled:
  "some_transfer_failed flaky_transport []
      (emitted (read flaky_transport volts main_globals (Device_init 0x48 (1 / 8000) 0)) [])
   \<and> fst (read flaky_transport volts main_globals (Device_init 0x48 (1 / 8000) 0) []) = Inr []
   \<and> \<not> isl (fst (read flaky_transport volts main_globals (Device_init 0x48 (1 / 8000) 0) []))"
  by code_simp

section \<open>The configuration register\<close>

lemma read_channel_block_writes:
  "block_writes (emitted (read_channel T fmul bus addr res mux) s)
     = [(addr, 0x01, config_bytes (config_word mux))]"
  by (auto simp: read_channel_unfold emitted_def channel_events_def split: option.splits sum.splits)

lemma read_logical_port_block_writes:
  "prefix (block_writes (emitted (read_logical_port T fmul addr res chan) s))
     (map (\<lambda>mux. (addr, 0x01, config_bytes (config_word mux))) mux_configs)"
proof -
  from read_logical_port_cases [of T fmul addr res chan s] show ?thesis
  proof (elim disjE exE conjE)
    fix e s'
    assume body: "read_four_channels T fmul addr res chan s = (Inl e, s')"
      and port: "read_logical_port T fmul addr res chan s = (Inr [], s' @ [Print (ErrorReadingVoltage e)])"
    from read_four_channels_Inl [OF body] port show ?thesis
      by (auto simp: emitted_def block_writes_append mux_configs_def)
  next
    fix vs s'
    assume body: "read_four_channels T fmul addr res chan s = (Inr vs, s')"
      and port: "read_logical_port T fmul addr res chan s = (Inr vs, s')"
    from read_four_channels_Inr_no_failure [OF body] port show ?thesis
      by (auto simp: emitted_def)
  qed
qed

lemma read_logical_port_success_block_writes:
  assumes "fst (read_logical_port T fmul addr res chan s) = Inr vs" "vs \<noteq> []"
  shows "block_writes (emitted (read_logical_port T fmul addr res chan) s)
     = map (\<lambda>mux. (addr, 0x01, config_bytes (config_word mux))) mux_configs"
proof -
  from assms read_logical_port_cases [of T fmul addr res chan s]
  obtain s' where body: "read_four_channels T fmul addr res chan s = (Inr vs, s')"
    and port: "read_logical_port T fmul addr res chan s = (Inr vs, s')"
    by auto
  from read_four_channels_Inr_no_failure [OF body] port show ?thesis
    by (auto simp: emitted_def)
qed

lemma config_word_channel:
  assumes "c \<in> {0, 1, 2, 3 :: nat}"
  shows "config_word (mux_configs ! c)
           = 0x8000 OR (0x4000 + int c * 0x1000) OR 0x0200 OR 0x0100 OR 0x0080 OR 0x0003"
    and "config_bytes (config_word (mux_configs ! c))
           = [config_word (mux_configs ! c) div 256, config_word (mux_configs ! c) mod 256]"
    and "(config_word (mux_configs ! c) XOR config_word (mux_configs ! 0)) AND NOT 0x7000 = 0"
proof -
  from assms consider "c = 0" | "c = 1" | "c = 2" | "c = 3" by auto
  then show "config_word (mux_configs ! c)
           = 0x8000 OR (0x4000 + int c * 0x1000) OR 0x0200 OR 0x0100 OR 0x0080 OR 0x0003"
    by cases (simp_all add: mux_configs_def config_word_def ADS1115_constants)
  from assms consider "c = 0" | "c = 1" | "c = 2" | "c = 3" by auto
  then show "config_bytes (config_word (mux_configs ! c))
           = [config_word (mux_configs ! c) div 256, config_word (mux_configs ! c) mod 256]"
    by cases (simp_all add: mux_configs_def config_word_def config_bytes_def ADS1115_constants)
  from assms consider "c = 0" | "c = 1" | "c = 2" | "c = 3" by auto
  then show "(config_word (mux_configs ! c) XOR config_word (mux_configs ! 0)) AND NOT 0x7000 = 0"
    by cases (simp_all add: mux_configs_def config_word_def ADS1115_constants)
qed

text \<open>
  Claim C4. For each channel \<open>c\<close> of 0, 1, 2, 3 the configuration word is
  \<open>0x8000 | (0x4000 + c * 0x1000) | 0x0200 | 0x0100 | 0x0080 | 0x0003\<close>; the only block
  write of that channel's read goes to the configuration register (pointer 0x01) and carries
  the most significant byte of the word, then the least significant; and the word differs
  from channel 0's in the multiplexer bits 14 to 12 only. The block writes of a whole cycle
  are these writes in the order of the channels: all four when the cycle succeeds, and the
  first ones of them when it stops early.
\<close>

theorem config_register_bytes:
  "(\<forall>c\<in>{0, 1, 2, 3 :: nat}.
      (let w = 0x8000 OR (0x4000 + int c * 0x1000) OR 0x0200 OR 0x0100 OR 0x0080 OR 0x0003
       in config_word (mux_configs ! c) = w \<and>
          block_writes (emitted (read_channel T fmul bus addr res (mux_configs ! c)) s)
            = [(addr, ADS1115_POINTER_CONFIG, [w div 256, w mod 256])] \<and>
          (config_word (mux_configs ! c) XOR config_word (mux_configs ! 0)) AND NOT 0x7000 = 0))
   \<and> prefix (block_writes (emitted (read_logical_port T fmul addr res chan) s))
        (map (\<lambda>c. (addr, ADS1115_POINTER_CONFIG, config_bytes (config_word (mux_configs ! c))))
           [0, 1, 2, 3])
   \<and> (\<forall>vs. fst (read_logical_port T fmul addr res chan s) = Inr vs \<and> vs \<noteq> [] \<longrightarrow>
        block_writes (emitted (read_logical_port T fmul addr res chan) s)
          = map (\<lambda>c. (addr, ADS1115_POINTER_CONFIG, config_bytes (config_word (mux_configs ! c))))
              [0, 1, 2, 3])"
  (is "?words \<and> ?pre \<and> ?succ")
proof -
  have words: ?words
  proof (rule ballI)
    fix c :: nat
    assume c: "c \<in> {0, 1, 2, 3}"
    define w :: int where
      "w = 0x8000 OR (0x4000 + int c * 0x1000) OR 0x0200 OR 0x0100 OR 0x0080 OR 0x0003"
    have cw: "config_word (mux_configs ! c) = w"
      unfolding w_def by (rule config_word_channel(1) [OF c])
    have "block_writes (emitted (read_channel T fmul bus addr res (mux_configs ! c)) s)
            = [(addr, 0x01, config_bytes (config_word (mux_configs ! c)))]"
      by (rule read_channel_block_writes)
    also have "config_bytes (config_word (mux_configs ! c)) = [w div 256, w mod 256]"
      unfolding cw [symmetric] by (rule config_word_channel(2) [OF c])
    finally have bw: "block_writes (emitted (read_channel T fmul bus addr res (mux_configs ! c)) s)
            = [(addr, ADS1115_POINTER_CONFIG, [w div 256, w mod 256])]"
      unfolding ADS1115_POINTER_CONFIG_def .
    note x = config_word_channel(3) [OF c]
    from cw bw x show "let w = 0x8000 OR (0x4000 + int c * 0x1000) OR 0x0200 OR 0x0100 OR 0x0080 OR 0x0003
       in config_word (mux_configs ! c) = w \<and>
          block_writes (emitted (read_channel T fmul bus addr res (mux_configs ! c)) s)
            = [(addr, ADS1115_POINTER_CONFIG, [w div 256, w mod 256])] \<and>
          (config_word (mux_configs ! c) XOR config_word (mux_configs ! 0)) AND NOT 0x7000 = 0"
      unfolding Let_def w_def by (intro conjI)
  qed
  have eq: "map (\<lambda>c. (addr, ADS1115_POINTER_CONFIG, config_bytes (config_word (mux_configs ! c)))) [0, 1, 2, 3]
    = map (\<lambda>mux. (addr, 0x01, config_bytes (config_word mux))) mux_configs"
    unfolding mux_configs_def ADS1115_POINTER_CONFIG_def by simp
  have pre: ?pre
    unfolding eq by (rule read_logical_port_block_writes)
  have succ: ?succ
  proof (intro allI impI, elim conjE)
    fix vs
    assume ok: "fst (read_logical_port T fmul addr res chan s) = Inr vs" "vs \<noteq> []"
    show "block_writes (emitted (read_logical_port T fmul addr res chan) s)
          = map (\<lambda>c. (addr, ADS1115_POINTER_CONFIG, config_bytes (config_word (mux_configs ! c))))
              [0, 1, 2, 3]"
      unfolding eq by (rule read_logical_port_success_block_writes [OF ok])
  qed
  from words pre succ show ?thesis by (intro conjI)
qed

text \<open>Channel 2 on the stub device, and the four writes of a cycle that succeeds.\<close>

theorem config_register_bytes_witness:
  "config_word (mux_configs ! 2) = 0xE383 \<and>
   block_writes (emitted (read_channel stub_transport volts 0 0x48 (1 / 8000) (mux_configs ! 2)) [])
     = [(0x48, 0x01, [0xE3, 0x83])] \<and>
   block_writes (emitted (read_logical_port stub_transport volts 0x48 (1 / 8000) 0) [])
     = [(0x48, 0x01, [0xC3, 0x83]), (0x48, 0x01, [0xD3, 0x83]),
        (0x48, 0x01, [0xE3, 0x83]), (0x48, 0x01, [0xF3, 0x83])]"
proof -
  note inst = config_register_bytes [of stub_transport volts 0 "0x48" "1 / 8000" "[]" 0]
  have run: "fst (read_logical_port stub_transport volts 0x48 (1 / 8000) 0 [])
     = Inr [819 / 1600, 32767 / 8000, - (512 / 125), - (1 / 8000)]
     \<and> [819 / 1600, 32767 / 8000, - (512 / 125), - (1 / 8000) :: rat] \<noteq> []"
    by code_simp
  have mem: "(2 :: nat) \<in> {0, 1, 2, 3}"
    by simp
  have bytes: "map (\<lambda>c. (0x48 :: int, ADS1115_POINTER_CONFIG, config_bytes (config_word (mux_configs ! c))))
            [0, 1, 2, 3]
      = [(0x48, 0x01, [0xC3, 0x83]), (0x48, 0x01, [0xD3, 0x83]),
         (0x48, 0x01, [0xE3, 0x83]), (0x48, 0x01, [0xF3, 0x83])]"
    by code_simp
  from inst [THEN conjunct1, THEN bspec, OF mem]
  have one: "config_word (mux_configs ! 2) = 0xE383 \<and>
   block_writes (emitted (read_channel stub_transport volts 0 0x48 (1 / 8000) (mux_configs ! 2)) [])
     = [(0x48, 0x01, [0xE3, 0x83])]"
    by (simp add: ADS1115_POINTER_CONFIG_def)
  from inst [THEN conjunct2, THEN conjunct2, THEN spec, THEN mp, OF run]
  have "block_writes (emitted (read_logical_port stub_transport volts 0x48 (1 / 8000) 0) [])
     = [(0x48, 0x01, [0xC3, 0x83]), (0x48, 0x01, [0xD3, 0x83]),
        (0x48, 0x01, [0xE3, 0x83]), (0x48, 0x01, [0xF3, 0x83])]"
    unfolding bytes .
  with one show ?thesis by (intro conjI) simp_all
qed

section \<open>Exceptions during a read cycle\<close>

text \<open>
  Claim C10. Whatever exception the four-channel read cycle raises, a transport failure on
  a single channel included, \<open>_read_logical_port\<close> catches it, prints it and returns the
  empty list; and \<open>Device.read\<close>, once its probe has found the device and the three
  global names are bound, returns that empty list as a normal result and raises nothing.
\<close>

theorem read_cycle_exception_swallowed:
  "(fst (read_four_channels T fmul addr res chan s) = Inl e \<longrightarrow>
      read_logical_port T fmul addr res chan s
        = (Inr [], snd (read_four_channels T fmul addr res chan s) @ [Print (ErrorReadingVoltage e)]))
   \<and> (fst (check_if_device_exists T (i2c_channel self) (address self) s0) = Inr True \<and>
       g_address G = Some a \<and> g_resolution G = Some r \<and> g_i2c_channel G = Some c \<and>
       fst (read_four_channels T fmul a r c
              (snd (check_if_device_exists T (i2c_channel self) (address self) s0))) = Inl e'
      \<longrightarrow> fst (read T fmul G self s0) = Inr [])"
proof (intro conjI impI)
  assume "fst (read_four_channels T fmul addr res chan s) = Inl e"
  then show "read_logical_port T fmul addr res chan s
        = (Inr [], snd (read_four_channels T fmul addr res chan s) @ [Print (ErrorReadingVoltage e)])"
    using read_logical_port_cases [of T fmul addr res chan s] by auto
next
  define s1 where "s1 = snd (check_if_device_exists T (i2c_channel self) (address self) s0)"
  assume "fst (check_if_device_exists T (i2c_channel self) (address self) s0) = Inr True \<and>
       g_address G = Some a \<and> g_resolution G = Some r \<and> g_i2c_channel G = Some c \<and>
       fst (read_four_channels T fmul a r c
              (snd (check_if_device_exists T (i2c_channel self) (address self) s0))) = Inl e'"
  then have probe: "check_if_device_exists T (i2c_channel self) (address self) s0 = (Inr True, s1)"
    and globals: "g_address G = Some a" "g_resolution G = Some r" "g_i2c_channel G = Some c"
    and body: "fst (read_four_channels T fmul a r c s1) = Inl e'"
    by (simp_all add: prod_eq_iff s1_def)
  from body read_logical_port_cases [of T fmul a r c s1]
  obtain s2 where port: "read_logical_port T fmul a r c s1 = (Inr [], s2)"
    by auto
  have "read T fmul G self s0 = (Inr [], s2)"
    by (simp add: read_def try_except_def bind_io_def probe globals port load_global_def
        return_io_def)
  then show "fst (read T fmul G self s0) = Inr []"
    by simp
qed

text \<open>The device whose conversion read of input 2 is not acknowledged.\<close>

theorem read_cycle_exception_swallowed_witness:
  "fst (read_four_channels flaky_transport volts 0x48 (1 / 8000) 0 [Open 0, WriteQuick 0 0x48]) = Inl OSError
   \<and> fst (read_logical_port flaky_transport volts 0x48 (1 / 8000) 0 [Open 0, WriteQuick 0 0x48]) = Inr []
   \<and> fst (read flaky_transport volts main_globals (Device_init 0x48 (1 / 8000) 0) []) = Inr []"
proof -
  note inst = read_cycle_exception_swallowed
    [where T = flaky_transport and fmul = volts and addr = "0x48" and res = "1 / 8000" and chan = 0
       and s = "[Open 0, WriteQuick 0 0x48]" and e = OSError
       and self = "Device_init 0x48 (1 / 8000) 0" and ?s0.0 = "[]" and G = main_globals
       and a = "0x48" and r = "1 / 8000" and c = 0 and e' = OSError]
  have probe: "check_if_device_exists flaky_transport
       (i2c_channel (Device_init 0x48 (1 / 8000 :: rat) 0))
       (address (Device_init 0x48 (1 / 8000 :: rat) 0)) []
     = (Inr True, [Open 0, WriteQuick 0 0x48])"
    by code_simp
  have globals: "g_address main_globals = Some 0x48 \<and> g_resolution main_globals = Some (1 / 8000)
      \<and> g_i2c_channel main_globals = Some 0"
    by (simp add: main_globals_def)
  have body: "fst (read_four_channels flaky_transport volts 0x48 (1 / 8000) 0 [Open 0, WriteQuick 0 0x48])
      = Inl OSError"
    by code_simp
  from inst [THEN conjunct1, THEN mp, OF body]
  have port: "fst (read_logical_port flaky_transport volts 0x48 (1 / 8000) 0 [Open 0, WriteQuick 0 0x48]) = Inr []"
    by simp
  from inst [THEN conjunct2] probe globals body
  have "fst (read flaky_transport volts main_globals (Device_init 0x48 (1 / 8000) 0) []) = Inr []"
    by simp
  with body port show ?thesis by simp
qed

section \<open>The presence probe\<close>

text \<open>
  Claim C9. The probe returns \<open>True\<close> exactly when the bus opens and the quick write
  completes; when the quick write is not acknowledged (an \<open>OSError\<close>) it returns
  \<open>False\<close> as a normal result, and so it does when the bus cannot be opened for an
  \<open>OSError\<close>; it never raises an \<open>OSError\<close>, so it never raises for an absent
  device; and it writes no register.
\<close>

theorem check_if_device_exists_outcomes:
  "(fst (check_if_device_exists T chan addr s) = Inr True \<longleftrightarrow>
      smbus_open T s chan = None \<and> smbus_write_quick T (s @ [Open chan]) chan addr = None)
   \<and> (smbus_open T s chan = None \<and> smbus_write_quick T (s @ [Open chan]) chan addr = Some OSError
        \<longrightarrow> check_if_device_exists T chan addr s = (Inr False, s @ [Open chan, WriteQuick chan addr]))
   \<and> (smbus_open T s chan = Some OSError
        \<longrightarrow> check_if_device_exists T chan addr s = (Inr False, s @ [Open chan]))
   \<and> (\<forall>e. fst (check_if_device_exists T chan addr s) = Inl e \<longrightarrow> \<not> is_OSError e)
   \<and> block_writes (emitted (check_if_device_exists T chan addr) s) = []"
  by (auto simp: check_if_device_exists_def io_defs emitted_def
      split: option.splits sum.splits prod.splits if_splits)

text \<open>A device that acknowledges at 0x48, and a bus on which nothing does.\<close>

theorem check_if_device_exists_outcomes_witness:
  "check_if_device_exists stub_transport 0 0x48 [] = (Inr True, [Open 0, WriteQuick 0 0x48])
   \<and> check_if_device_exists nack_transport 0 0x48 [] = (Inr False, [Open 0, WriteQuick 0 0x48])"
proof -
  have ack: "smbus_open stub_transport [] 0 = None \<and>
      smbus_write_quick stub_transport ([] @ [Open 0]) 0 0x48 = None"
    by (simp add: stub_transport_def)
  have nack: "smbus_open nack_transport [] 0 = None \<and>
      smbus_write_quick nack_transport ([] @ [Open 0]) 0 0x48 = Some OSError"
    by (simp add: nack_transport_def)
  have snd_ack: "snd (check_if_device_exists stub_transport 0 0x48 []) = [Open 0, WriteQuick 0 0x48]"
    by code_simp
  from check_if_device_exists_outcomes [of stub_transport 0 "0x48" "[]"] ack
  have "fst (check_if_device_exists stub_transport 0 0x48 []) = Inr True"
    by blast
  moreover from check_if_device_exists_outcomes [of nack_transport 0 "0x48" "[]"] nack
  have "check_if_device_exists nack_transport 0 0x48 [] = (Inr False, [Open 0, WriteQuick 0 0x48])"
    by simp
  ultimately show ?thesis using snd_ack by (simp add: prod_eq_iff)
qed

section \<open>\<open>Device.read\<close> and the module's globals\<close>

text \<open>
  Claim C1 asks that \<open>read\<close> work on the instance's own address, resolution and
  channel. The code passes the module's globals of these names instead. With the names
  unbound (the module imported, not run) \<open>read\<close> raises on a device that is present;
  with the globals of the \<open>__main__\<close> block, an instance constructed with resolution
  1/16000 returns voltages scaled by the global 1/8000.
\<close>

theorem read_uses_module_globals:
  "read stub_transport volts no_globals (Device_init 0x48 (1 / 8000) 0) []
     = (Inl (AdsReadException (Cause (NameError ''address''))), [Open 0, WriteQuick 0 0x48])
   \<and> fst (read stub_transport volts main_globals (Device_init 0x48 (1 / 16000) 0) [])
     = Inr [volts 4095 (1 / 8000), volts 32767 (1 / 8000), volts (- 32768) (1 / 8000),
            volts (- 1) (1 / 8000)]
   \<and> fst (read stub_transport volts main_globals (Device_init 0x48 (1 / 16000) 0) [])
     \<noteq> Inr [volts 4095 (1 / 16000), volts 32767 (1 / 16000), volts (- 32768) (1 / 16000),
            volts (- 1) (1 / 16000)]"
  by code_simp

text \<open>
  Claim C3 asks that \<open>read\<close> fail with \<open>AdsNotFound\<close>, told apart from the generic
  read failure, when the probe reports the device absent. The code raises \<open>AdsNotFound\<close>
  inside its own \<open>try\<close> block, so what leaves \<open>read\<close> is an \<open>AdsReadException\<close>
  that wraps it (or, with the globals unbound, one that wraps the \<open>NameError\<close> of
  formatting the message). No register is written, as the claim says.
\<close>

theorem read_absent_device_raises_read_exception:
  "read nack_transport volts main_globals (Device_init 0x48 (1 / 8000) 0) []
     = (Inl (AdsReadException (Cause (AdsNotFound 0 0x48))), [Open 0, WriteQuick 0 0x48])
   \<and> fst (read nack_transport volts main_globals (Device_init 0x48 (1 / 8000) 0) [])
     \<noteq> Inl (AdsNotFound 0 0x48)
   \<and> block_writes (emitted (read nack_transport volts main_globals (Device_init 0x48 (1 / 8000) 0)) []) = []
   \<and> fst (read nack_transport volts no_globals (Device_init 0x48 (1 / 8000) 0) [])
     = Inl (AdsReadException (Cause (NameError ''i2c_channel'')))"
  by code_simp

section \<open>The scan\<close>

lemma scan_step:
  "try_except (bind_io (write_quick T bus a) (\<lambda>_. return_io (acc @ [a])))
       (\<lambda>e. if is_OSError e then return_io acc else raise_io e) s
   = (case smbus_write_quick T s bus a of
        None \<Rightarrow> Inr (acc @ [a])
      | Some e \<Rightarrow> if is_OSError e then Inr acc else Inl e, s @ [WriteQuick bus a])"
  by (simp add: io_defs split: option.splits)

lemma scan_loop_Cons:
  "scan_loop T bus (a # rest) acc s =
     (case smbus_write_quick T s bus a of
        None \<Rightarrow> scan_loop T bus rest (acc @ [a]) (s @ [WriteQuick bus a])
      | Some e \<Rightarrow> if is_OSError e then scan_loop T bus rest acc (s @ [WriteQuick bus a])
                  else (Inl e, s @ [WriteQuick bus a]))"
  by (simp add: scan_step bind_io_def split: option.splits)

text \<open>
  The loop over the addresses from \<open>i\<close> on, when the addresses \<open>lo\<close> to \<open>i - 1\<close>
  were probed before: it returns the responders in the order of the probes, or raises what a
  probe raised that is not an \<open>OSError\<close>.
\<close>

lemma scan_loop_upto:
  assumes "lo \<le> i"
  shows "scan_loop T bus [i..j] acc (base @ map (WriteQuick bus) [lo..i - 1]) = (r, s') \<Longrightarrow>
    (case r of
       Inr xs \<Rightarrow> xs = acc @ filter (\<lambda>a. smbus_write_quick T (base @ map (WriteQuick bus) [lo..a - 1]) bus a = None) [i..j]
     | Inl x \<Rightarrow> \<exists>a\<in>{i..j}. smbus_write_quick T (base @ map (WriteQuick bus) [lo..a - 1]) bus a = Some x \<and> \<not> is_OSError x)"
  using assms
proof (induction i j arbitrary: acc rule: upto.induct)
  case (1 i j)
  show ?case
  proof (cases "i \<le> j")
    case False
    with "1.prems" show ?thesis by (auto simp: return_io_def)
  next
    case True
    then have unf: "[i..j] = i # [i + 1..j]" by (rule upto_rec1)
    have tr: "(base @ map (WriteQuick bus) [lo..i - 1]) @ [WriteQuick bus i]
        = base @ map (WriteQuick bus) [lo..i + 1 - 1]"
      using \<open>lo \<le> i\<close> by (simp add: upto_rec2)
    let ?ans = "smbus_write_quick T (base @ map (WriteQuick bus) [lo..i - 1]) bus i"
    let ?P = "\<lambda>a. smbus_write_quick T (base @ map (WriteQuick bus) [lo..a - 1]) bus a = None"
    show ?thesis
    proof (cases ?ans)
      case None
      with "1.prems"(1) have run: "scan_loop T bus [i + 1..j] (acc @ [i])
          (base @ map (WriteQuick bus) [lo..i + 1 - 1]) = (r, s')"
        unfolding unf scan_loop_Cons tr by simp
      from "1.IH" [OF True run] \<open>lo \<le> i\<close>
      have "case r of
         Inr xs \<Rightarrow> xs = (acc @ [i]) @ filter ?P [i + 1..j]
       | Inl x \<Rightarrow> \<exists>a\<in>{i + 1..j}. smbus_write_quick T (base @ map (WriteQuick bus) [lo..a - 1]) bus a = Some x \<and> \<not> is_OSError x"
        by simp
      with None True show ?thesis
        unfolding unf by (auto split: sum.splits)
    next
      case (Some e)
      show ?thesis
      proof (cases "is_OSError e")
        case True
        with Some "1.prems"(1) have run: "scan_loop T bus [i + 1..j] acc
            (base @ map (WriteQuick bus) [lo..i + 1 - 1]) = (r, s')"
          unfolding unf scan_loop_Cons tr by simp
        from "1.IH" [OF \<open>i \<le> j\<close> run] \<open>lo \<le> i\<close>
        have "case r of
           Inr xs \<Rightarrow> xs = acc @ filter ?P [i + 1..j]
         | Inl x \<Rightarrow> \<exists>a\<in>{i + 1..j}. smbus_write_quick T (base @ map (WriteQuick bus) [lo..a - 1]) bus a = Some x \<and> \<not> is_OSError x"
          by simp
        with Some \<open>i \<le> j\<close> show ?thesis
          unfolding unf by (auto split: sum.splits)
      next
        case False
        with Some "1.prems"(1) have "r = Inl e"
          unfolding unf scan_loop_Cons by simp
        with Some False \<open>i \<le> j\<close> show ?thesis by auto
      qed
    qed
  qed
qed

lemma search_i2c_memory_unfold:
  "search_i2c_memory T chan s =
     (case smbus_open T s chan of
        Some e \<Rightarrow> (Inl (AdsReadException (SearchMessage e)), s @ [Open chan])
      | None \<Rightarrow>
          (case scan_loop T chan (range_py 0x03 0x78) [] (s @ [Open chan, Print Searching]) of
             (Inl e, s') \<Rightarrow> (Inl (AdsReadException (SearchMessage e)), s')
           | (Inr xs, s') \<Rightarrow> (Inr (if xs \<noteq> [] then Some xs else None), s')))"
  by (simp add: search_i2c_memory_def io_defs split: option.splits sum.splits prod.splits)

lemma set_range_py: "set (range_py lo hi) = {lo..hi - 1}"
  by (simp add: range_py_def)

lemma set_addresses: "set (range_py 0x03 0x78) = {0x03..0x77}"
  unfolding set_range_py by simp

lemma scan_loop_range:
  assumes "scan_loop T chan (range_py 0x03 0x78) [] (s @ [Open chan, Print Searching]) = (r, s')"
  shows "case r of
       Inr xs \<Rightarrow> xs = filter (\<lambda>a. probe_answer T s chan a = None) (range_py 0x03 0x78)
     | Inl x \<Rightarrow> \<exists>a\<in>{0x03..0x77}. probe_answer T s chan a = Some x \<and> \<not> is_OSError x"
proof -
  define lo :: int where "lo = 0x03"
  define hi :: int where "hi = 0x78 - 1"
  have rng: "range_py 0x03 0x78 = [lo..hi]"
    unfolding range_py_def lo_def hi_def ..
  have ivl: "{0x03..0x77} = {lo..hi}"
    unfolding lo_def hi_def by simp
  have ans: "probe_answer T s chan a
      = smbus_write_quick T ((s @ [Open chan, Print Searching]) @ map (WriteQuick chan) [lo..a - 1]) chan a"
    for a
    unfolding lo_def by (simp add: probe_answer_def probe_trace_def)
  have "[lo..lo - 1] = []"
    by simp
  then have "scan_loop T chan [lo..hi] []
      ((s @ [Open chan, Print Searching]) @ map (WriteQuick chan) [lo..lo - 1]) = (r, s')"
    using assms unfolding rng by simp
  from scan_loop_upto [OF order_refl this] show ?thesis
    unfolding rng ivl ans by (cases r) simp_all
qed

text \<open>
  Claim C7, as the code has it. When the bus opens and no address acknowledges, the scan
  returns \<open>None\<close> as a normal result: not an error, and not an empty list, which it
  never returns. It raises \<open>AdsReadException\<close> when the bus cannot be opened, and
  otherwise only when a probe raises something that is not an \<open>OSError\<close>: never for an
  address that does not acknowledge.
\<close>

theorem search_i2c_memory_no_responder:
  "(smbus_open T s chan = None \<and> (\<forall>a\<in>{0x03..0x77}. probe_answer T s chan a = Some OSError)
      \<longrightarrow> fst (search_i2c_memory T chan s) = Inr None)
   \<and> (\<forall>e. smbus_open T s chan = Some e
      \<longrightarrow> fst (search_i2c_memory T chan s) = Inl (AdsReadException (SearchMessage e)))
   \<and> (\<forall>x. fst (search_i2c_memory T chan s) = Inl x
      \<longrightarrow> (\<exists>e. x = AdsReadException (SearchMessage e) \<and>
             (smbus_open T s chan = Some e \<or>
              (\<exists>a\<in>{0x03..0x77}. probe_answer T s chan a = Some e \<and> \<not> is_OSError e))))
   \<and> fst (search_i2c_memory T chan s) \<noteq> Inr (Some [])"
  (is "?none \<and> ?closed \<and> ?raised \<and> ?nonempty")
proof -
  obtain r s' where run:
    "scan_loop T chan (range_py 0x03 0x78) [] (s @ [Open chan, Print Searching]) = (r, s')"
    by (cases "scan_loop T chan (range_py 0x03 0x78) [] (s @ [Open chan, Print Searching])")
  note scan = scan_loop_range [OF run]
  have none: ?none
  proof (intro impI, elim conjE)
    assume op: "smbus_open T s chan = None"
      and nack: "\<forall>a\<in>{0x03..0x77}. probe_answer T s chan a = Some OSError"
    from nack have empty: "filter (\<lambda>a. probe_answer T s chan a = None) (range_py 0x03 0x78) = []"
      unfolding filter_empty_conv set_addresses by simp
    from nack have "\<not> (\<exists>a\<in>{0x03..0x77}. \<exists>x. probe_answer T s chan a = Some x \<and> \<not> is_OSError x)"
      by auto
    with scan empty have "r = Inr []"
      by (cases r) auto
    with op run show "fst (search_i2c_memory T chan s) = Inr None"
      by (simp add: search_i2c_memory_unfold)
  qed
  have closed: ?closed
    by (simp add: search_i2c_memory_unfold)
  have raised: ?raised
  proof (intro allI impI)
    fix x
    assume x: "fst (search_i2c_memory T chan s) = Inl x"
    show "\<exists>e. x = AdsReadException (SearchMessage e) \<and>
             (smbus_open T s chan = Some e \<or>
              (\<exists>a\<in>{0x03..0x77}. probe_answer T s chan a = Some e \<and> \<not> is_OSError e))"
    proof (cases "smbus_open T s chan")
      case (Some e)
      with x show ?thesis by (auto simp: search_i2c_memory_unfold)
    next
      case None
      with x run obtain e where "r = Inl e" "x = AdsReadException (SearchMessage e)"
        by (cases r) (auto simp: search_i2c_memory_unfold split: if_splits)
      with scan show ?thesis by auto
    qed
  qed
  have nonempty: ?nonempty
    using run by (cases r) (auto simp: search_i2c_memory_unfold split: option.splits)
  from none closed raised nonempty show ?thesis
    by (intro conjI)
qed

text \<open>Bus 0 with no device on it, and bus 1, which does not exist.\<close>

theorem search_i2c_memory_no_responder_witness:
  "fst (search_i2c_memory nack_transport 0 []) = Inr None
   \<and> fst (search_i2c_memory nack_transport 1 []) = Inl (AdsReadException (SearchMessage OSError))
   \<and> smbus_open nack_transport [] 1 = Some OSError"
proof -
  have op: "smbus_open nack_transport [] 0 = None"
    by (simp add: nack_transport_def)
  have nack: "\<forall>a\<in>{0x03..0x77}. probe_answer nack_transport [] 0 a = Some OSError"
    by (simp add: probe_answer_def nack_transport_def)
  have closed: "smbus_open nack_transport [] 1 = Some OSError"
    by (simp add: nack_transport_def)
  note here = search_i2c_memory_no_responder [of nack_transport "[]" 0]
  note there = search_i2c_memory_no_responder [of nack_transport "[]" 1]
  from here [THEN conjunct1] op nack
  have none: "fst (search_i2c_memory nack_transport 0 []) = Inr None"
    by blast
  from there [THEN conjunct2, THEN conjunct1] closed
  have raised: "fst (search_i2c_memory nack_transport 1 []) = Inl (AdsReadException (SearchMessage OSError))"
    by blast
  from there [THEN conjunct2, THEN conjunct2, THEN conjunct1] raised
  have "\<exists>e. AdsReadException (SearchMessage OSError) = AdsReadException (SearchMessage e) \<and>
             (smbus_open nack_transport [] 1 = Some e \<or>
              (\<exists>a\<in>{0x03..0x77}. probe_answer nack_transport [] 1 a = Some e \<and> \<not> is_OSError e))"
    by blast
  with none raised closed show ?thesis
    by simp
qed

text \<open>
  Claim C7 as stated asks for an empty sequence: on the bus with no device the scan returns
  \<open>None\<close>.
\<close>

theorem search_i2c_memory_returns_None:
  "fst (search_i2c_memory nack_transport 0 []) = Inr None
   \<and> fst (search_i2c_memory nack_transport 0 []) \<noteq> Inr (Some [])"
  by code_simp



end
